theory Spec2Isabelle
  imports Complex_Main
begin

section \<open>The drawing program of Source.cpp\<close>

text \<open>
  The program is a single class \<open>GraphicsApp\<close> whose method \<open>handleEvents\<close> drains the
  window's event queue and updates the canvas. The model below follows that method
  branch by branch.

  Numbers. \<open>sf::Vector2i\<close> holds two machine integers and \<open>sf::Vector2f\<close> two
  single-precision floats. The only integer operation of the program is the conversion
  to \<open>float\<close>; the floating-point operations are that conversion, the subtraction
  \<open>endPos - startPos\<close>, and the radius of a circle: two squares and their sum,
  the square root of the sum, and the narrowing of the result to \<open>float\<close>. A
  floating-point value is modelled by the real number it denotes. Conversion,
  subtraction, squaring and addition lose nothing for coordinates of magnitude below
  \<open>2^23\<close>, which covers every position on a screen, and are modelled by the exact
  real operations. The square root and the narrowing do round, and the model rounds
  there as the machine does.
\<close>

subsection \<open>Vectors, colours, shapes\<close>

type_synonym Vector2i = "int \<times> int"
type_synonym Vector2f = "real \<times> real"

text \<open>The conversion \<open>sf::Vector2f(mousePos)\<close>, and \<open>sf::Vector2f(x, y)\<close> on two ints.\<close>

definition Vector2f_of :: "Vector2i \<Rightarrow> Vector2f" where
  "Vector2f_of v = (real_of_int (fst v), real_of_int (snd v))"

text \<open>\<open>operator-\<close> of \<open>sf::Vector2f\<close>: componentwise.\<close>

definition vminus :: "Vector2f \<Rightarrow> Vector2f \<Rightarrow> Vector2f" where
  "vminus a b = (fst a - fst b, snd a - snd b)"

text \<open>
  Rounding of IEEE 754 binary floating point, to nearest with ties to even.
  \<open>roundHalfEven\<close> rounds a real to the nearest integer, a tie going to the even one.
  \<open>roundToPrecision p\<close> rounds a real to the nearest number with \<open>p\<close>
  significant bits: with \<open>2^k \<le> |x| < 2^(k+1)\<close>, the result is a multiple of
  \<open>2^(k - (p - 1))\<close>. A \<open>float\<close> has 24 significant bits and a \<open>double\<close>
  53. The range of the exponent is left out: every value rounded by this program is 0
  or lies between 1 and \<open>2^33\<close>, far from overflow and from subnormal numbers.
\<close>

definition roundHalfEven :: "real \<Rightarrow> int" where
  "roundHalfEven y =
     (let f = \<lfloor>y\<rfloor>; d = y - real_of_int f
      in if d < 1 / 2 then f else if d > 1 / 2 then f + 1 else if even f then f else f + 1)"

definition roundToPrecision :: "nat \<Rightarrow> real \<Rightarrow> real" where
  "roundToPrecision p x =
     (if x = 0 then 0
      else (let e = \<lfloor>log 2 \<bar>x\<bar>\<rfloor> - (int p - 1)
            in real_of_int (roundHalfEven (x / 2 powr real_of_int e)) * 2 powr real_of_int e))"

definition toFloat :: "real \<Rightarrow> real" where
  "toFloat x = roundToPrecision 24 x"

definition toDouble :: "real \<Rightarrow> real" where
  "toDouble x = roundToPrecision 53 x"

text \<open>\<open>sf::Color\<close>: red, green, blue, alpha.\<close>

datatype Color = Color nat nat nat nat

definition White :: Color where
  "White = Color 255 255 255 255"

text \<open>
  The three classes derived from \<open>Shape\<close>, with the arguments of their constructors:
  \<open>Line(start, end, color)\<close>, \<open>Rectangle(position, size, color)\<close>,
  \<open>Circle(position, radius, color)\<close>. The constructors store their arguments
  unchanged (fill colour and outline thickness are constants), and a shape is never
  modified afterwards, so a \<open>shared_ptr<Shape>\<close> is modelled by the shape it points to.
\<close>

datatype Shape =
    Line Vector2f Vector2f Color
  | Rectangle Vector2f Vector2f Color
  | Circle Vector2f real Color

text \<open>\<open>enum class ShapeType { None, Line, Rectangle, Circle }\<close>\<close>

datatype ShapeType = ShapeType_None | ShapeType_Line | ShapeType_Rectangle | ShapeType_Circle

subsection \<open>Buttons\<close>

text \<open>
  A button is drawn from a rectangle shape with a position and a size; it has no outline
  and no transform other than its position, so its global bounds are the rectangle
  \<open>(position, size)\<close>. \<open>Button::isClicked\<close> asks those bounds whether they contain
  the point. \<open>contains\<close> is \<open>sf::Rect<float>::contains\<close> of the SFML library:
  the left and top edges belong to the rectangle, the right and bottom edges do not.
\<close>

record FloatRect =
  rect_left :: real
  rect_top :: real
  rect_width :: real
  rect_height :: real

definition contains :: "FloatRect \<Rightarrow> Vector2f \<Rightarrow> bool" where
  "contains r p =
     (let minX = min (rect_left r) (rect_left r + rect_width r);
          maxX = max (rect_left r) (rect_left r + rect_width r);
          minY = min (rect_top r) (rect_top r + rect_height r);
          maxY = max (rect_top r) (rect_top r + rect_height r)
      in fst p \<ge> minX \<and> fst p < maxX \<and> snd p \<ge> minY \<and> snd p < maxY)"

record Button =
  buttonPosition :: Vector2f
  buttonSize :: Vector2f
  buttonText :: string

definition getGlobalBounds :: "Button \<Rightarrow> FloatRect" where
  "getGlobalBounds b =
     \<lparr>rect_left = fst (buttonPosition b), rect_top = snd (buttonPosition b),
      rect_width = fst (buttonSize b), rect_height = snd (buttonSize b)\<rparr>"

definition isClicked :: "Button \<Rightarrow> Vector2i \<Rightarrow> bool" where
  "isClicked b mousePos = contains (getGlobalBounds b) (Vector2f_of mousePos)"

text \<open>The six buttons, as the constructor of \<open>GraphicsApp\<close> builds them. They never change.\<close>

definition lineButton :: Button where
  "lineButton = \<lparr>buttonPosition = (10, 10), buttonSize = (100, 50), buttonText = ''Line''\<rparr>"

definition rectButton :: Button where
  "rectButton = \<lparr>buttonPosition = (120, 10), buttonSize = (100, 50), buttonText = ''Rectangle''\<rparr>"

definition circleButton :: Button where
  "circleButton = \<lparr>buttonPosition = (230, 10), buttonSize = (100, 50), buttonText = ''Circle''\<rparr>"

definition clearButton :: Button where
  "clearButton = \<lparr>buttonPosition = (340, 10), buttonSize = (100, 50), buttonText = ''Clear''\<rparr>"

definition saveButton :: Button where
  "saveButton = \<lparr>buttonPosition = (450, 10), buttonSize = (100, 50), buttonText = ''Save''\<rparr>"

definition undoButton :: Button where
  "undoButton = \<lparr>buttonPosition = (560, 10), buttonSize = (100, 50), buttonText = ''Undo''\<rparr>"

subsection \<open>The application state\<close>

text \<open>
  The mutable members of \<open>GraphicsApp\<close>. \<open>windowOpen\<close> is what \<open>window.isOpen()\<close>
  returns. \<open>drawing_png\<close> stands for the file \<open>drawing.png\<close>: \<open>saveDrawing\<close>
  draws the shapes of the canvas, and nothing else, on a black texture and writes it
  to that file, so the file is modelled by the list of shapes drawn into it
  (\<open>None\<close> while nothing has been saved).
\<close>

record GraphicsApp =
  windowOpen :: bool
  shapes :: "Shape list"
  currentColor :: Color
  currentShapeType :: ShapeType
  isDrawing :: bool
  startPos :: Vector2f
  undoStack :: "Shape list"
  drawing_png :: "Shape list option"

text \<open>The state the constructor leaves: an empty canvas, no tool, not drawing.\<close>

definition initialApp :: GraphicsApp where
  "initialApp =
     \<lparr>windowOpen = True, shapes = [], currentColor = White,
      currentShapeType = ShapeType_None, isDrawing = False, startPos = (0, 0),
      undoStack = [], drawing_png = None\<rparr>"

definition saveDrawing :: "GraphicsApp \<Rightarrow> GraphicsApp" where
  "saveDrawing app = app\<lparr>drawing_png := Some (shapes app)\<rparr>"

subsection \<open>Events\<close>

text \<open>
  \<open>sf::Event\<close>: the two event types the program looks at, and every other type.
  A \<open>MouseButtonPressed\<close> event carries \<open>event.mouseButton.x\<close> and
  \<open>event.mouseButton.y\<close>.

  One iteration of the loop \<open>while (window.pollEvent(event))\<close> reads three things
  from outside: the event polled, the cursor position that
  \<open>sf::Mouse::getPosition(window)\<close> returns when it is asked, and whether
  \<open>sf::Keyboard::isKeyPressed(sf::Keyboard::C)\<close> holds when it is asked.
\<close>

datatype Event = Closed | MouseButtonPressed int int | OtherEvent

record Poll =
  event :: Event
  mousePosition :: Vector2i
  keyC :: bool

subsection \<open>handleEvents\<close>

text \<open>
  The body of \<open>if (event.type == sf::Event::MouseButtonPressed)\<close>. \<open>mousePos\<close>
  is the cursor position queried at the top of the block, \<open>ev\<close> the coordinates stored
  in the event.

  The radius of a circle: \<open>std::pow\<close> of a \<open>float\<close> and an \<open>int\<close> is computed in
  \<open>double\<close>, and so are the sum and \<open>std::sqrt\<close>; the square root is rounded to a
  \<open>double\<close>, and the assignment to \<open>float radius\<close> rounds that to a \<open>float\<close>.
\<close>

definition mouseButtonPressed :: "GraphicsApp \<Rightarrow> Vector2i \<Rightarrow> Vector2i \<Rightarrow> GraphicsApp" where
  "mouseButtonPressed app mousePos ev =
     (if \<not> isDrawing app then
        (if isClicked lineButton mousePos then
           app\<lparr>currentShapeType := ShapeType_Line\<rparr>
         else if isClicked rectButton mousePos then
           app\<lparr>currentShapeType := ShapeType_Rectangle\<rparr>
         else if isClicked circleButton mousePos then
           app\<lparr>currentShapeType := ShapeType_Circle\<rparr>
         else if isClicked clearButton mousePos then
           app\<lparr>shapes := [], undoStack := []\<rparr>
         else if isClicked undoButton mousePos then
           (if shapes app \<noteq> [] then
              app\<lparr>undoStack := undoStack app @ [last (shapes app)],
                  shapes := butlast (shapes app)\<rparr>
            else app)
         else if isClicked saveButton mousePos then
           saveDrawing app
         else if currentShapeType app \<noteq> ShapeType_None then
           app\<lparr>startPos := Vector2f_of mousePos, isDrawing := True\<rparr>
         else app)
      else
        (let endPos = Vector2f_of ev;
             app1 =
               (if currentShapeType app = ShapeType_Line then
                  app\<lparr>shapes := shapes app @ [Line (startPos app) endPos (currentColor app)]\<rparr>
                else if currentShapeType app = ShapeType_Rectangle then
                  (let size = vminus endPos (startPos app)
                   in app\<lparr>shapes := shapes app @ [Rectangle (startPos app) size (currentColor app)]\<rparr>)
                else if currentShapeType app = ShapeType_Circle then
                  (let radius = toFloat (toDouble (sqrt ((fst endPos - fst (startPos app))\<^sup>2
                                      + (snd endPos - snd (startPos app))\<^sup>2)))
                   in app\<lparr>shapes := shapes app @ [Circle (startPos app) radius (currentColor app)]\<rparr>)
                else app)
         in app1\<lparr>currentShapeType := ShapeType_None, isDrawing := False\<rparr>))"

text \<open>The body of \<open>if (sf::Keyboard::isKeyPressed(sf::Keyboard::C))\<close>.\<close>

definition keyPressedC :: "GraphicsApp \<Rightarrow> GraphicsApp" where
  "keyPressedC app = app\<lparr>shapes := [], undoStack := []\<rparr>"

text \<open>One iteration of the polling loop: the three \<open>if\<close> statements in their order.\<close>

definition handleEvent :: "GraphicsApp \<Rightarrow> Poll \<Rightarrow> GraphicsApp" where
  "handleEvent app p =
     (let app1 = (if event p = Closed then app\<lparr>windowOpen := False\<rparr> else app);
          app2 = (case event p of
                    MouseButtonPressed x y \<Rightarrow> mouseButtonPressed app1 (mousePosition p) (x, y)
                  | _ \<Rightarrow> app1)
      in if keyC p then keyPressedC app2 else app2)"

text \<open>
  \<open>handleEvents\<close>: the loop runs once for each event that \<open>pollEvent\<close>
  delivers. The events delivered, each with what the two device queries return during
  its iteration, are the list \<open>ps\<close>. \<open>run\<close> calls \<open>handleEvents\<close> and
  \<open>drawShapes\<close> in turn, and \<open>drawShapes\<close> changes no member, so the states the
  program reaches are the states \<open>handleEvents initialApp ps\<close>. No list is excluded:
  a window that has been closed delivers no further events, so the lists the program
  can meet are among those considered.
\<close>

fun handleEvents :: "GraphicsApp \<Rightarrow> Poll list \<Rightarrow> GraphicsApp" where
  "handleEvents app [] = app"
| "handleEvents app (p # ps) = handleEvents (handleEvent app p) ps"

section \<open>Specification vocabulary\<close>

text \<open>A position that lies on none of the six buttons.\<close>

definition hitsNoButton :: "Vector2i \<Rightarrow> bool" where
  "hitsNoButton p \<longleftrightarrow>
     \<not> isClicked lineButton p \<and> \<not> isClicked rectButton p \<and> \<not> isClicked circleButton p \<and>
     \<not> isClicked clearButton p \<and> \<not> isClicked undoButton p \<and> \<not> isClicked saveButton p"

text \<open>
  The Euclidean distance of two points of the plane, taken from the library: the metric
  of the complex numbers.
\<close>

definition euclideanDistance :: "Vector2f \<Rightarrow> Vector2f \<Rightarrow> real" where
  "euclideanDistance a b = dist (Complex (fst a) (snd a)) (Complex (fst b) (snd b))"

text \<open>
  The shapes a placement is specified to add, for a tool, a start point, an end point
  and a colour: a line from start to end; a rectangle with origin start and size
  end minus start; a circle positioned at start whose radius is the distance of the
  two points, rounded to a \<open>double\<close> and then to a \<open>float\<close>; nothing when no tool is
  selected.
\<close>

fun placed :: "ShapeType \<Rightarrow> Vector2f \<Rightarrow> Vector2f \<Rightarrow> Color \<Rightarrow> Shape list" where
  "placed ShapeType_None s e c = []"
| "placed ShapeType_Line s e c = [Line s e c]"
| "placed ShapeType_Rectangle s e c = [Rectangle s (fst e - fst s, snd e - snd s) c]"
| "placed ShapeType_Circle s e c = [Circle s (toFloat (toDouble (euclideanDistance s e))) c]"

text \<open>The tool a shape belongs to, and the point a shape starts from.\<close>

fun shapeTypeOf :: "Shape \<Rightarrow> ShapeType" where
  "shapeTypeOf (Line s e c) = ShapeType_Line"
| "shapeTypeOf (Rectangle p sz c) = ShapeType_Rectangle"
| "shapeTypeOf (Circle p r c) = ShapeType_Circle"

fun shapeStart :: "Shape \<Rightarrow> Vector2f" where
  "shapeStart (Line s e c) = s"
| "shapeStart (Rectangle p sz c) = p"
| "shapeStart (Circle p r c) = p"

text \<open>
  A poll presses a tool button in a state: its event is a mouse press, no click is
  pending, and the cursor lies on one of the three tool buttons.
\<close>

definition toolButtonPress :: "GraphicsApp \<Rightarrow> Poll \<Rightarrow> bool" where
  "toolButtonPress app p =
     (case event p of
        MouseButtonPressed x y \<Rightarrow>
          \<not> isDrawing app \<and>
          (isClicked lineButton (mousePosition p) \<or> isClicked rectButton (mousePosition p) \<or>
           isClicked circleButton (mousePosition p))
      | _ \<Rightarrow> False)"

text \<open>
  A click at a position: the event carries the position, the cursor is still there when
  the handler asks for it, and the C key is up.
\<close>

definition click :: "Vector2i \<Rightarrow> Poll" where
  "click p = \<lparr>event = MouseButtonPressed (fst p) (snd p), mousePosition = p, keyC = False\<rparr>"

section \<open>Basic facts\<close>

subsection \<open>The button regions\<close>

lemma isClicked_lineButton:
  "isClicked lineButton (x, y) \<longleftrightarrow> 10 \<le> x \<and> x < 110 \<and> 10 \<le> y \<and> y < 60"
  by (simp add: isClicked_def contains_def getGlobalBounds_def lineButton_def Vector2f_of_def)

lemma isClicked_rectButton:
  "isClicked rectButton (x, y) \<longleftrightarrow> 120 \<le> x \<and> x < 220 \<and> 10 \<le> y \<and> y < 60"
  by (simp add: isClicked_def contains_def getGlobalBounds_def rectButton_def Vector2f_of_def)

lemma isClicked_circleButton:
  "isClicked circleButton (x, y) \<longleftrightarrow> 230 \<le> x \<and> x < 330 \<and> 10 \<le> y \<and> y < 60"
  by (simp add: isClicked_def contains_def getGlobalBounds_def circleButton_def Vector2f_of_def)

lemma isClicked_clearButton:
  "isClicked clearButton (x, y) \<longleftrightarrow> 340 \<le> x \<and> x < 440 \<and> 10 \<le> y \<and> y < 60"
  by (simp add: isClicked_def contains_def getGlobalBounds_def clearButton_def Vector2f_of_def)

lemma isClicked_saveButton:
  "isClicked saveButton (x, y) \<longleftrightarrow> 450 \<le> x \<and> x < 550 \<and> 10 \<le> y \<and> y < 60"
  by (simp add: isClicked_def contains_def getGlobalBounds_def saveButton_def Vector2f_of_def)

lemma isClicked_undoButton:
  "isClicked undoButton (x, y) \<longleftrightarrow> 560 \<le> x \<and> x < 660 \<and> 10 \<le> y \<and> y < 60"
  by (simp add: isClicked_def contains_def getGlobalBounds_def undoButton_def Vector2f_of_def)

lemmas isClicked_simps =
  isClicked_lineButton isClicked_rectButton isClicked_circleButton
  isClicked_clearButton isClicked_saveButton isClicked_undoButton

subsection \<open>Rounding\<close>

lemma roundHalfEven_of_int: "roundHalfEven (real_of_int z) = z"
  by (simp add: roundHalfEven_def)

lemma roundHalfEven_nearest:
  assumes "real_of_int m - 1 / 2 < y" and "y < real_of_int m + 1 / 2"
  shows "roundHalfEven y = m"
proof -
  have "\<lfloor>y\<rfloor> = m \<or> \<lfloor>y\<rfloor> = m - 1" using assms by linarith
  then show ?thesis
  proof
    assume f: "\<lfloor>y\<rfloor> = m"
    then have "y - real_of_int \<lfloor>y\<rfloor> < 1 / 2" using assms by simp
    then show ?thesis using f by (simp add: roundHalfEven_def Let_def)
  next
    assume f: "\<lfloor>y\<rfloor> = m - 1"
    then have "y - real_of_int \<lfloor>y\<rfloor> > 1 / 2" using assms by simp
    then show ?thesis using f by (simp add: roundHalfEven_def Let_def)
  qed
qed

lemma roundHalfEven_nonneg: "0 \<le> y \<Longrightarrow> 0 \<le> roundHalfEven y"
proof -
  assume "0 \<le> y"
  then have "0 \<le> \<lfloor>y\<rfloor>" by simp
  then show ?thesis by (simp add: roundHalfEven_def Let_def)
qed

lemma roundToPrecision_nonneg: "0 \<le> x \<Longrightarrow> 0 \<le> roundToPrecision p x"
  by (simp add: roundToPrecision_def Let_def roundHalfEven_nonneg)

text \<open>How to compute a rounding once the binade of the argument is known.\<close>

lemma roundToPrecision_scaled:
  assumes "2 ^ k \<le> x" and "x < 2 ^ Suc k" and "k < p"
  shows "roundToPrecision p x =
           real_of_int (roundHalfEven (x * 2 ^ (p - 1 - k))) / 2 ^ (p - 1 - k)"
proof -
  have "(0::real) < 2 ^ k" by simp
  then have pos: "0 < x" using assms(1) by linarith
  have "(2::real) powr real_of_int (int k) \<le> x \<and> x < 2 powr real_of_int (int k + 1)"
    using assms(1,2) by (simp add: powr_realpow powr_add)
  then have fl: "\<lfloor>log 2 \<bar>x\<bar>\<rfloor> = int k"
    using pos floor_log_eq_powr_iff [of x 2 "int k"] by simp
  have e: "\<lfloor>log 2 \<bar>x\<bar>\<rfloor> - (int p - 1) = - int (p - 1 - k)"
    using assms(3) fl by simp
  have pw: "(2::real) powr real_of_int (- int (p - 1 - k)) = 1 / 2 ^ (p - 1 - k)"
    by (simp add: powr_minus powr_realpow divide_inverse)
  have "roundToPrecision p x =
          real_of_int (roundHalfEven (x / (1 / 2 ^ (p - 1 - k)))) * (1 / 2 ^ (p - 1 - k))"
    using pos unfolding roundToPrecision_def Let_def e pw by simp
  then show ?thesis by simp
qed

text \<open>An integer of fewer than \<open>p\<close> bits is its own rounding.\<close>

lemma roundToPrecision_of_int:
  assumes "\<bar>n\<bar> < 2 ^ p"
  shows "roundToPrecision p (real_of_int n) = real_of_int n"
proof (cases "n = 0")
  case True
  then show ?thesis by (simp add: roundToPrecision_def)
next
  case False
  let ?x = "real_of_int n"
  let ?e = "\<lfloor>log 2 \<bar>?x\<bar>\<rfloor> - (int p - 1)"
  have x1: "1 \<le> \<bar>?x\<bar>" using False by (simp flip: of_int_abs)
  have xp: "\<bar>?x\<bar> < 2 ^ p"
    using assms by (metis of_int_abs of_int_less_numeral_power_cancel_iff)
  have "0 \<le> log 2 \<bar>?x\<bar>" using x1 by simp
  moreover have "log 2 \<bar>?x\<bar> < real p"
    using x1 xp by (simp add: log_less_iff powr_realpow)
  ultimately have e: "?e \<le> 0" by (simp add: floor_less_iff)
  define j where "j = nat (- ?e)"
  have ej: "?e = - int j" using e by (simp add: j_def)
  have pw: "(2::real) powr real_of_int (- int j) = 1 / 2 ^ j"
    by (simp add: powr_minus powr_realpow divide_inverse)
  have "?x / (1 / 2 ^ j) = real_of_int (n * 2 ^ j)" by simp
  then have r: "roundHalfEven (?x / (1 / 2 ^ j)) = n * 2 ^ j"
    by (simp only: roundHalfEven_of_int)
  have "roundToPrecision p ?x =
          real_of_int (roundHalfEven (?x / (1 / 2 ^ j))) * (1 / 2 ^ j)"
    using False unfolding roundToPrecision_def Let_def ej pw by simp
  then show ?thesis unfolding r by simp
qed

lemma toFloat_toDouble_of_int:
  assumes "\<bar>n\<bar> < 2 ^ 24"
  shows "toFloat (toDouble (real_of_int n)) = real_of_int n"
proof -
  have "(2::int) ^ 24 \<le> 2 ^ 53" by simp
  then have "\<bar>n\<bar> < 2 ^ 53" using assms by linarith
  then show ?thesis using assms by (simp add: toFloat_def toDouble_def roundToPrecision_of_int)
qed

text \<open>The square root of 2 as a \<open>double\<close>, and that \<open>double\<close> as a \<open>float\<close>.\<close>

lemma toDouble_sqrt_2: "toDouble (sqrt 2) = 6369051672525773 / 2 ^ 52"
proof -
  have lo: "(1::real) \<le> sqrt 2" by simp
  have hi: "sqrt 2 < (2::real)" by (rule real_less_lsqrt) simp_all
  have a: "real_of_int 6369051672525773 - 1 / 2 < sqrt 2 * 2 ^ 52"
  proof -
    have "(12738103345051545 / 2 ^ 53 :: real) < sqrt 2"
      by (rule real_less_rsqrt) (simp add: power2_eq_square)
    then show ?thesis by (simp add: field_simps)
  qed
  have b: "sqrt 2 * 2 ^ 52 < real_of_int 6369051672525773 + 1 / 2"
  proof -
    have "sqrt 2 < (12738103345051547 / 2 ^ 53 :: real)"
      by (rule real_less_lsqrt) (simp_all add: power2_eq_square)
    then show ?thesis by (simp add: field_simps)
  qed
  have "roundHalfEven (sqrt 2 * 2 ^ 52) = 6369051672525773"
    by (rule roundHalfEven_nearest [OF a b])
  then show ?thesis
    using roundToPrecision_scaled [of 0 "sqrt 2" 53] lo hi by (simp add: toDouble_def)
qed

lemma toFloat_toDouble_sqrt_2: "toFloat (toDouble (sqrt 2)) = 11863283 / 8388608"
proof -
  let ?d = "6369051672525773 / 2 ^ 52 :: real"
  have lo: "2 ^ 0 \<le> ?d" by simp
  have hi: "?d < 2 ^ Suc 0" by simp
  have "roundHalfEven (?d * 2 ^ 23) = 11863283"
    by (rule roundHalfEven_nearest) simp_all
  then show ?thesis
    using roundToPrecision_scaled [OF lo hi, of 24] by (simp add: toFloat_def toDouble_sqrt_2)
qed

text \<open>The same for the square root of 12500, the distance of \<open>(200, 200)\<close> and \<open>(300, 250)\<close>.\<close>

lemma toDouble_sqrt_12500: "toDouble (sqrt 12500) = 7867464773627462 / 2 ^ 46"
proof -
  have lo: "(2::real) ^ 6 \<le> sqrt 12500" by (rule real_le_rsqrt) simp
  have hi: "sqrt 12500 < (2::real) ^ Suc 6" by (rule real_less_lsqrt) simp_all
  have a: "real_of_int 7867464773627462 - 1 / 2 < sqrt 12500 * 2 ^ 46"
  proof -
    have "(15734929547254923 / 2 ^ 47 :: real) < sqrt 12500"
      by (rule real_less_rsqrt) (simp add: power2_eq_square)
    then show ?thesis by (simp add: field_simps)
  qed
  have b: "sqrt 12500 * 2 ^ 46 < real_of_int 7867464773627462 + 1 / 2"
  proof -
    have "sqrt 12500 < (15734929547254925 / 2 ^ 47 :: real)"
      by (rule real_less_lsqrt) (simp_all add: power2_eq_square)
    then show ?thesis by (simp add: field_simps)
  qed
  have "roundHalfEven (sqrt 12500 * 2 ^ 46) = 7867464773627462"
    by (rule roundHalfEven_nearest [OF a b])
  then show ?thesis
    using roundToPrecision_scaled [OF lo hi, of 53] by (simp add: toDouble_def)
qed

lemma toFloat_toDouble_sqrt_12500: "toFloat (toDouble (sqrt 12500)) = 14654295 / 131072"
proof -
  let ?d = "7867464773627462 / 2 ^ 46 :: real"
  have lo: "2 ^ 6 \<le> ?d" by simp
  have hi: "?d < 2 ^ Suc 6" by simp
  have "roundHalfEven (?d * 2 ^ 17) = 14654295"
    by (rule roundHalfEven_nearest) simp_all
  then show ?thesis
    using roundToPrecision_scaled [OF lo hi, of 24] by (simp add: toFloat_def toDouble_sqrt_12500)
qed

subsection \<open>Points and distances\<close>

lemma Vector2f_of_pair: "Vector2f_of (x, y) = (real_of_int x, real_of_int y)"
  by (simp add: Vector2f_of_def)

lemma Vector2f_of_inj: "Vector2f_of p = Vector2f_of q \<longleftrightarrow> p = q"
  by (cases p, cases q) (simp add: Vector2f_of_def)

lemma euclideanDistance_sqrt:
  "euclideanDistance s e = sqrt ((fst e - fst s)\<^sup>2 + (snd e - snd s)\<^sup>2)"
  by (simp add: euclideanDistance_def dist_complex_def cmod_def power2_commute)

lemma sqrt_25: "sqrt 25 = 5"
  using real_sqrt_unique [of 5 25] by simp

lemma placed_one:
  "t \<noteq> ShapeType_None \<Longrightarrow> \<exists>sh. placed t s e c = [sh] \<and> shapeTypeOf sh = t \<and> shapeStart sh = s"
  by (cases t) simp_all

subsection \<open>The two halves of the click handler\<close>

lemma mouseButtonPressed_idle:
  assumes "\<not> isDrawing app" and "hitsNoButton mp" and "currentShapeType app \<noteq> ShapeType_None"
  shows "mouseButtonPressed app mp ev = app\<lparr>startPos := Vector2f_of mp, isDrawing := True\<rparr>"
  using assms by (simp add: mouseButtonPressed_def hitsNoButton_def)

lemma mouseButtonPressed_placing:
  assumes "isDrawing app"
  shows "mouseButtonPressed app mp ev =
           app\<lparr>shapes := shapes app @ placed (currentShapeType app) (startPos app)
                                          (Vector2f_of ev) (currentColor app),
               currentShapeType := ShapeType_None, isDrawing := False\<rparr>"
  using assms
  by (cases "currentShapeType app")
     (simp_all add: mouseButtonPressed_def Let_def vminus_def euclideanDistance_sqrt Vector2f_of_def)

lemma circle_not_earlier:
  "isClicked circleButton mp \<Longrightarrow> \<not> isClicked lineButton mp \<and> \<not> isClicked rectButton mp"
  by (cases mp) (simp add: isClicked_simps)

lemma clear_not_earlier:
  "isClicked clearButton mp \<Longrightarrow>
     \<not> isClicked lineButton mp \<and> \<not> isClicked rectButton mp \<and> \<not> isClicked circleButton mp"
  by (cases mp) (simp add: isClicked_simps)

lemma undo_not_earlier:
  "isClicked undoButton mp \<Longrightarrow>
     \<not> isClicked lineButton mp \<and> \<not> isClicked rectButton mp \<and> \<not> isClicked circleButton mp \<and>
     \<not> isClicked clearButton mp"
  by (cases mp) (simp add: isClicked_simps)

lemma mouseButtonPressed_line:
  assumes "\<not> isDrawing app" and "isClicked lineButton mp"
  shows "mouseButtonPressed app mp ev = app\<lparr>currentShapeType := ShapeType_Line\<rparr>"
  using assms by (simp add: mouseButtonPressed_def)

lemma mouseButtonPressed_circle:
  assumes "\<not> isDrawing app" and "isClicked circleButton mp"
  shows "mouseButtonPressed app mp ev = app\<lparr>currentShapeType := ShapeType_Circle\<rparr>"
  using assms circle_not_earlier [OF assms(2)] by (simp add: mouseButtonPressed_def)

lemma mouseButtonPressed_clear:
  assumes "\<not> isDrawing app" and "isClicked clearButton mp"
  shows "mouseButtonPressed app mp ev = app\<lparr>shapes := [], undoStack := []\<rparr>"
  using assms clear_not_earlier [OF assms(2)] by (simp add: mouseButtonPressed_def)

lemma mouseButtonPressed_undo:
  assumes "\<not> isDrawing app" and "isClicked undoButton mp"
  shows "mouseButtonPressed app mp ev =
           (if shapes app \<noteq> [] then
              app\<lparr>undoStack := undoStack app @ [last (shapes app)], shapes := butlast (shapes app)\<rparr>
            else app)"
  using assms undo_not_earlier [OF assms(2)] by (simp add: mouseButtonPressed_def)

subsection \<open>One iteration, and the loop\<close>

lemma handleEvent_click:
  "handleEvent app (click p) = mouseButtonPressed app p p"
  by (simp add: handleEvent_def click_def)

lemma handleEvent_isDrawing:
  "isDrawing (handleEvent app p) =
     (case event p of
        MouseButtonPressed x y \<Rightarrow> isDrawing (mouseButtonPressed app (mousePosition p) (x, y))
      | _ \<Rightarrow> isDrawing app)"
  by (simp add: handleEvent_def keyPressedC_def Let_def split: Event.splits)

lemma handleEvent_currentShapeType:
  "currentShapeType (handleEvent app p) =
     (case event p of
        MouseButtonPressed x y \<Rightarrow> currentShapeType (mouseButtonPressed app (mousePosition p) (x, y))
      | _ \<Rightarrow> currentShapeType app)"
  by (simp add: handleEvent_def keyPressedC_def Let_def split: Event.splits)

lemma handleEvents_append:
  "handleEvents app (ps @ qs) = handleEvents (handleEvents app ps) qs"
  by (induction ps arbitrary: app) simp_all

lemma handleEvents_snoc:
  "handleEvents app (ps @ [p]) = handleEvent (handleEvents app ps) p"
  by (simp add: handleEvents_append)

section \<open>Two-click placement\<close>

text \<open>
  Claim C1. In a state with a tool selected and no pending click, a click whose position
  lies on no button records that position as the pending start and changes nothing else.
  The click after it appends exactly one shape to the canvas; the shape is of the selected
  tool's type and its geometry is the one \<open>placed\<close> gives for the two click points;
  afterwards no tool is selected and no click is pending. The position of the first
  click is the one the handler tests against the buttons, the cursor position; the
  position of the second is the one stored in the event.
\<close>

theorem two_clicks_place_one_shape:
  assumes "currentShapeType app \<noteq> ShapeType_None" and "\<not> isDrawing app" and "hitsNoButton p"
  shows "mouseButtonPressed app p ev = app\<lparr>startPos := Vector2f_of p, isDrawing := True\<rparr> \<and>
         (\<exists>sh. mouseButtonPressed (mouseButtonPressed app p ev) mp q =
                 app\<lparr>startPos := Vector2f_of p, shapes := shapes app @ [sh],
                     currentShapeType := ShapeType_None, isDrawing := False\<rparr> \<and>
               [sh] = placed (currentShapeType app) (Vector2f_of p) (Vector2f_of q) (currentColor app) \<and>
               shapeTypeOf sh = currentShapeType app)"
proof -
  let ?s1 = "app\<lparr>startPos := Vector2f_of p, isDrawing := True\<rparr>"
  have first: "mouseButtonPressed app p ev = ?s1"
    using assms by (simp add: mouseButtonPressed_idle)
  obtain sh where sh:
      "placed (currentShapeType app) (Vector2f_of p) (Vector2f_of q) (currentColor app) = [sh]"
      "shapeTypeOf sh = currentShapeType app"
    using placed_one [OF assms(1)] by blast
  have "mouseButtonPressed ?s1 mp q =
          app\<lparr>startPos := Vector2f_of p, shapes := shapes app @ [sh],
              currentShapeType := ShapeType_None, isDrawing := False\<rparr>"
    using sh(1) by (simp add: mouseButtonPressed_placing)
  with first sh show ?thesis by auto
qed

theorem two_clicks_place_one_shape_witness:
  "currentShapeType (initialApp\<lparr>currentShapeType := ShapeType_Rectangle\<rparr>) \<noteq> ShapeType_None \<and>
   \<not> isDrawing (initialApp\<lparr>currentShapeType := ShapeType_Rectangle\<rparr>) \<and>
   hitsNoButton (200, 200) \<and>
   mouseButtonPressed
     (mouseButtonPressed (initialApp\<lparr>currentShapeType := ShapeType_Rectangle\<rparr>) (200, 200) (200, 200))
     (300, 250) (300, 250)
     = initialApp\<lparr>startPos := (200, 200), shapes := [Rectangle (200, 200) (100, 50) White]\<rparr>"
proof -
  let ?a = "initialApp\<lparr>currentShapeType := ShapeType_Rectangle\<rparr>"
  have h1: "currentShapeType ?a \<noteq> ShapeType_None" by simp
  have h2: "\<not> isDrawing ?a" by (simp add: initialApp_def)
  have h3: "hitsNoButton (200, 200)" by (simp add: hitsNoButton_def isClicked_simps)
  from two_clicks_place_one_shape [OF h1 h2 h3, of "(200, 200)" "(300, 250)" "(300, 250)"] h1 h2 h3
  show ?thesis by (auto simp add: initialApp_def Vector2f_of_pair)
qed

text \<open>
  Claim C2. While a click is pending and a tool is selected, the next click is the
  endpoint of the shape whatever the cursor position and whatever the event's
  coordinates are: no button is tested. The state after it is the state before with
  one shape of the tool's type appended, built from the pending start and the event's
  coordinates, with no tool selected and no click pending; so a click on a tool or command
  button selects nothing, clears nothing, undoes nothing and saves nothing.
\<close>

theorem placing_click_is_endpoint:
  assumes "isDrawing app" and "currentShapeType app \<noteq> ShapeType_None"
  shows "\<exists>sh. mouseButtonPressed app mousePos ev =
               app\<lparr>shapes := shapes app @ [sh], currentShapeType := ShapeType_None,
                   isDrawing := False\<rparr> \<and>
             [sh] = placed (currentShapeType app) (startPos app) (Vector2f_of ev) (currentColor app) \<and>
             shapeTypeOf sh = currentShapeType app"
proof -
  obtain sh where sh:
      "placed (currentShapeType app) (startPos app) (Vector2f_of ev) (currentColor app) = [sh]"
      "shapeTypeOf sh = currentShapeType app"
    using placed_one [OF assms(2)] by blast
  then show ?thesis using assms(1) by (auto simp add: mouseButtonPressed_placing)
qed

text \<open>An instance: a click on the Clear button while a line is being placed.\<close>

theorem placing_click_is_endpoint_witness:
  "isDrawing (initialApp\<lparr>currentShapeType := ShapeType_Line, isDrawing := True,
        startPos := (200, 200), shapes := [Circle (1, 1) 1 White]\<rparr>) \<and>
   isClicked clearButton (350, 20) \<and>
   mouseButtonPressed
     (initialApp\<lparr>currentShapeType := ShapeType_Line, isDrawing := True,
        startPos := (200, 200), shapes := [Circle (1, 1) 1 White]\<rparr>) (350, 20) (350, 20)
     = initialApp\<lparr>startPos := (200, 200),
         shapes := [Circle (1, 1) 1 White, Line (200, 200) (350, 20) White]\<rparr>"
proof -
  let ?a = "initialApp\<lparr>currentShapeType := ShapeType_Line, isDrawing := True,
        startPos := (200, 200), shapes := [Circle (1, 1) 1 White]\<rparr>"
  have h1: "isDrawing ?a" by simp
  have h2: "currentShapeType ?a \<noteq> ShapeType_None" by simp
  from placing_click_is_endpoint [OF h1 h2, of "(350, 20)" "(350, 20)"]
  show ?thesis by (auto simp add: initialApp_def Vector2f_of_pair isClicked_simps)
qed

section \<open>Shape geometry\<close>

text \<open>
  Claim C9. For every placement of a rectangle (the click that arrives while a click is
  pending and the Rectangle tool is selected), the stored origin is the start point and
  the stored size is the end point minus the start point, component by component; the
  size may be negative: for start \<open>(10, 10)\<close> and end \<open>(5, 5)\<close> the rectangle has
  origin \<open>(10, 10)\<close> and size \<open>(-5, -5)\<close>.
\<close>

theorem rectangle_size_is_difference:
  assumes "isDrawing app" and "currentShapeType app = ShapeType_Rectangle"
  shows "mouseButtonPressed app mp (ex, ey) =
           app\<lparr>shapes := shapes app @ [Rectangle (startPos app)
                    (real_of_int ex - fst (startPos app), real_of_int ey - snd (startPos app))
                    (currentColor app)],
               currentShapeType := ShapeType_None, isDrawing := False\<rparr> \<and>
         mouseButtonPressed (app\<lparr>startPos := (10, 10)\<rparr>) mp (5, 5) =
           app\<lparr>startPos := (10, 10),
               shapes := shapes app @ [Rectangle (10, 10) (- 5, - 5) (currentColor app)],
               currentShapeType := ShapeType_None, isDrawing := False\<rparr>"
  using assms by (simp add: mouseButtonPressed_placing Vector2f_of_pair)

theorem rectangle_size_is_difference_witness:
  "isDrawing (initialApp\<lparr>currentShapeType := ShapeType_Rectangle, isDrawing := True\<rparr>) \<and>
   currentShapeType (initialApp\<lparr>currentShapeType := ShapeType_Rectangle, isDrawing := True\<rparr>)
     = ShapeType_Rectangle \<and>
   mouseButtonPressed
     (initialApp\<lparr>currentShapeType := ShapeType_Rectangle, isDrawing := True, startPos := (10, 10)\<rparr>)
     (5, 5) (5, 5)
     = initialApp\<lparr>startPos := (10, 10), shapes := [Rectangle (10, 10) (- 5, - 5) White]\<rparr>"
proof -
  let ?a = "initialApp\<lparr>currentShapeType := ShapeType_Rectangle, isDrawing := True\<rparr>"
  have h1: "isDrawing ?a" by simp
  have h2: "currentShapeType ?a = ShapeType_Rectangle" by simp
  from rectangle_size_is_difference [OF h1 h2, of "(5, 5)" 5 5] h1 h2
  show ?thesis by (simp add: initialApp_def)
qed

lemma euclideanDistance_nonneg: "0 \<le> euclideanDistance s e"
  by (simp add: euclideanDistance_def)

text \<open>
  Claim C8 says that the stored radius equals the Euclidean distance of the two points.
  The radius is a \<open>float\<close>: after the Circle button, a click at \<open>(0, 0)\<close> and a click
  at \<open>(1, 1)\<close>, the radius stored is \<open>11863283 / 8388608\<close>, the \<open>float\<close> next to the
  square root of 2, and not the distance itself.
\<close>

theorem circle_radius_is_distance_counterexample:
  "shapes (handleEvents initialApp [click (240, 20), click (0, 0), click (1, 1)])
     = [Circle (0, 0) (11863283 / 8388608) White] \<and>
   (11863283 / 8388608 :: real) \<noteq> euclideanDistance (0, 0) (Vector2f_of (1, 1))"
proof -
  have s1: "handleEvent initialApp (click (240, 20)) = initialApp\<lparr>currentShapeType := ShapeType_Circle\<rparr>"
    by (simp add: handleEvent_click mouseButtonPressed_circle isClicked_simps initialApp_def)
  have s2: "handleEvent (initialApp\<lparr>currentShapeType := ShapeType_Circle\<rparr>) (click (0, 0)) =
              initialApp\<lparr>currentShapeType := ShapeType_Circle, isDrawing := True\<rparr>"
    by (simp add: handleEvent_click mouseButtonPressed_idle hitsNoButton_def isClicked_simps
        initialApp_def Vector2f_of_pair)
  have s3: "handleEvent (initialApp\<lparr>currentShapeType := ShapeType_Circle, isDrawing := True\<rparr>) (click (1, 1)) =
              initialApp\<lparr>shapes := [Circle (0, 0) (11863283 / 8388608) White]\<rparr>"
    by (simp add: handleEvent_click mouseButtonPressed_placing initialApp_def
        euclideanDistance_sqrt Vector2f_of_pair toFloat_toDouble_sqrt_2)
  have run: "shapes (handleEvents initialApp [click (240, 20), click (0, 0), click (1, 1)])
               = [Circle (0, 0) (11863283 / 8388608) White]"
    by (simp add: s1 s2 s3)
  have "(11863283 / 8388608 :: real) \<noteq> sqrt 2"
  proof
    assume a: "(11863283 / 8388608 :: real) = sqrt 2"
    have "(sqrt 2)\<^sup>2 = (2::real)" by simp
    then have "(11863283 / 8388608 :: real)\<^sup>2 = 2" unfolding a [symmetric] .
    then show False by (simp add: power2_eq_square)
  qed
  then have "(11863283 / 8388608 :: real) \<noteq> euclideanDistance (0, 0) (Vector2f_of (1, 1))"
    by (simp add: euclideanDistance_sqrt Vector2f_of_pair)
  with run show ?thesis by blast
qed

text \<open>
  Claim C8, amended. For every placement of a circle, the stored radius is the Euclidean
  distance between the start point and the end point rounded to a \<open>float\<close> (the square
  root rounded to a \<open>double\<close>, and that to a \<open>float\<close>, each to nearest with ties to
  even) and is not negative; it equals the distance whenever the distance is a whole
  number below \<open>2^24\<close>; for start \<open>(0, 0)\<close> and end \<open>(3, 4)\<close> it is exactly 5.
\<close>

theorem circle_radius_is_rounded_distance:
  assumes "isDrawing app" and "currentShapeType app = ShapeType_Circle"
  shows "(\<exists>r. shapes (mouseButtonPressed app mp ev) =
                shapes app @ [Circle (startPos app) r (currentColor app)] \<and>
              r = toFloat (toDouble (euclideanDistance (startPos app) (Vector2f_of ev))) \<and>
              0 \<le> r \<and>
              (euclideanDistance (startPos app) (Vector2f_of ev) = real_of_int n \<and> n < 2 ^ 24 \<longrightarrow>
                 r = euclideanDistance (startPos app) (Vector2f_of ev))) \<and>
         shapes (mouseButtonPressed (app\<lparr>startPos := (0, 0)\<rparr>) mp (3, 4)) =
           shapes app @ [Circle (0, 0) 5 (currentColor app)]"
proof -
  let ?d = "euclideanDistance (startPos app) (Vector2f_of ev)"
  have stored: "shapes (mouseButtonPressed app mp ev) =
                  shapes app @ [Circle (startPos app) (toFloat (toDouble ?d)) (currentColor app)]"
    using assms by (simp add: mouseButtonPressed_placing)
  have nonneg: "0 \<le> toFloat (toDouble ?d)"
    by (simp add: toFloat_def toDouble_def roundToPrecision_nonneg euclideanDistance_nonneg)
  have exact: "toFloat (toDouble ?d) = ?d" if "?d = real_of_int n" and "n < 2 ^ 24"
  proof -
    have "0 \<le> real_of_int n" using that(1) euclideanDistance_nonneg [of "startPos app" "Vector2f_of ev"] by simp
    then have "\<bar>n\<bar> < 2 ^ 24" using that(2) by simp
    then show ?thesis using that(1) by (simp add: toFloat_toDouble_of_int)
  qed
  have "euclideanDistance (0, 0) (Vector2f_of (3, 4)) = real_of_int 5"
    by (simp add: euclideanDistance_sqrt Vector2f_of_pair sqrt_25)
  then have "toFloat (toDouble (euclideanDistance (0, 0) (Vector2f_of (3, 4)))) = 5"
    using toFloat_toDouble_of_int [of 5] by simp
  then have five: "shapes (mouseButtonPressed (app\<lparr>startPos := (0, 0)\<rparr>) mp (3, 4)) =
           shapes app @ [Circle (0, 0) 5 (currentColor app)]"
    using assms by (simp add: mouseButtonPressed_placing)
  show ?thesis using stored nonneg exact five by blast
qed

text \<open>An instance: start \<open>(0, 0)\<close>, end \<open>(3, 4)\<close>, distance 5.\<close>

theorem circle_radius_is_rounded_distance_witness:
  "isDrawing (initialApp\<lparr>currentShapeType := ShapeType_Circle, isDrawing := True\<rparr>) \<and>
   currentShapeType (initialApp\<lparr>currentShapeType := ShapeType_Circle, isDrawing := True\<rparr>)
     = ShapeType_Circle \<and>
   euclideanDistance (startPos (initialApp\<lparr>currentShapeType := ShapeType_Circle, isDrawing := True\<rparr>))
     (Vector2f_of (3, 4)) = real_of_int 5 \<and>
   (5 :: int) < 2 ^ 24 \<and>
   shapes (mouseButtonPressed
            (initialApp\<lparr>currentShapeType := ShapeType_Circle, isDrawing := True\<rparr>) (3, 4) (3, 4))
     = [Circle (0, 0) 5 White]"
proof -
  let ?a = "initialApp\<lparr>currentShapeType := ShapeType_Circle, isDrawing := True\<rparr>"
  have h1: "isDrawing ?a" by simp
  have h2: "currentShapeType ?a = ShapeType_Circle" by simp
  have h3: "euclideanDistance (startPos ?a) (Vector2f_of (3, 4)) = real_of_int 5"
    by (simp add: initialApp_def euclideanDistance_sqrt Vector2f_of_pair sqrt_25)
  have h4: "(5 :: int) < 2 ^ 24" by simp
  from circle_radius_is_rounded_distance [OF h1 h2, of "(3, 4)" "(3, 4)" 5]
  obtain r where r: "shapes (mouseButtonPressed ?a (3, 4) (3, 4)) =
        shapes ?a @ [Circle (startPos ?a) r (currentColor ?a)]"
      "euclideanDistance (startPos ?a) (Vector2f_of (3, 4)) = real_of_int 5 \<and> (5 :: int) < 2 ^ 24 \<longrightarrow>
         r = euclideanDistance (startPos ?a) (Vector2f_of (3, 4))"
    by blast
  from r(2) h3 h4 have "r = 5" by simp
  with r(1) have "shapes (mouseButtonPressed ?a (3, 4) (3, 4)) = [Circle (0, 0) 5 White]"
    by (simp add: initialApp_def)
  with h1 h2 h3 h4 show ?thesis by blast
qed

text \<open>
  Two circles drawn from the initial state, Circle button and then two clicks: one whose
  radius is the distance, one whose radius is not.
\<close>

lemma circle_3_4_from_initial:
  "handleEvents initialApp [click (240, 20), click (0, 0), click (3, 4)]
     = initialApp\<lparr>shapes := [Circle (0, 0) 5 White]\<rparr>"
proof -
  have s1: "handleEvent initialApp (click (240, 20)) = initialApp\<lparr>currentShapeType := ShapeType_Circle\<rparr>"
    by (simp add: handleEvent_click mouseButtonPressed_circle isClicked_simps initialApp_def)
  have s2: "handleEvent (initialApp\<lparr>currentShapeType := ShapeType_Circle\<rparr>) (click (0, 0)) =
              initialApp\<lparr>currentShapeType := ShapeType_Circle, isDrawing := True\<rparr>"
    by (simp add: handleEvent_click mouseButtonPressed_idle hitsNoButton_def isClicked_simps
        initialApp_def Vector2f_of_pair)
  have "toFloat (toDouble (sqrt 25)) = 5"
    using toFloat_toDouble_of_int [of 5] by (simp add: sqrt_25)
  then have s3: "handleEvent (initialApp\<lparr>currentShapeType := ShapeType_Circle, isDrawing := True\<rparr>) (click (3, 4)) =
              initialApp\<lparr>shapes := [Circle (0, 0) 5 White]\<rparr>"
    by (simp add: handleEvent_click mouseButtonPressed_placing initialApp_def
        euclideanDistance_sqrt Vector2f_of_pair)
  show ?thesis by (simp add: s1 s2 s3)
qed

lemma circle_100_50_from_initial:
  "handleEvents initialApp [click (240, 20), click (200, 200), click (300, 250)]
     = initialApp\<lparr>startPos := (200, 200), shapes := [Circle (200, 200) (14654295 / 131072) White]\<rparr>"
proof -
  have s1: "handleEvent initialApp (click (240, 20)) = initialApp\<lparr>currentShapeType := ShapeType_Circle\<rparr>"
    by (simp add: handleEvent_click mouseButtonPressed_circle isClicked_simps initialApp_def)
  have s2: "handleEvent (initialApp\<lparr>currentShapeType := ShapeType_Circle\<rparr>) (click (200, 200)) =
              initialApp\<lparr>currentShapeType := ShapeType_Circle, startPos := (200, 200), isDrawing := True\<rparr>"
    by (simp add: handleEvent_click mouseButtonPressed_idle hitsNoButton_def isClicked_simps
        initialApp_def Vector2f_of_pair)
  have s3: "handleEvent (initialApp\<lparr>currentShapeType := ShapeType_Circle, startPos := (200, 200),
                isDrawing := True\<rparr>) (click (300, 250)) =
              initialApp\<lparr>startPos := (200, 200), shapes := [Circle (200, 200) (14654295 / 131072) White]\<rparr>"
    by (simp add: handleEvent_click mouseButtonPressed_placing initialApp_def
        euclideanDistance_sqrt Vector2f_of_pair toFloat_toDouble_sqrt_12500)
  show ?thesis by (simp add: s1 s2 s3)
qed

section \<open>Which position a click uses\<close>

text \<open>
  Claim C10. Take a click event with stored coordinates \<open>(x, y)\<close>, handled while the
  cursor is at \<open>c\<close>. Outside Placing, in every state with no pending click, tool
  selected or not, the iteration does not depend on \<open>(x, y)\<close>: the hit tests use the
  cursor (a cursor on the Line button selects Line wherever the event says the click
  was), and the pending start recorded is the cursor position. In Placing the iteration
  does not depend on the cursor, and the shape committed ends at \<open>(x, y)\<close>. Hence, when
  the cursor at the first click is not at the coordinates of that click's event, the
  shape committed by the second click starts at the cursor position, which is not the
  first event's position.
\<close>

theorem cursor_position_is_start_point:
  "(\<not> isDrawing idle \<longrightarrow>
      handleEvent idle \<lparr>event = MouseButtonPressed x y, mousePosition = c, keyC = k\<rparr> =
      handleEvent idle \<lparr>event = MouseButtonPressed x' y', mousePosition = c, keyC = k\<rparr>) \<and>
   (\<not> isDrawing idle \<and> isClicked lineButton b \<longrightarrow>
      handleEvent idle \<lparr>event = MouseButtonPressed x y, mousePosition = b, keyC = False\<rparr> =
      idle\<lparr>currentShapeType := ShapeType_Line\<rparr>) \<and>
   (\<not> isDrawing app \<and> currentShapeType app \<noteq> ShapeType_None \<and> hitsNoButton c \<longrightarrow>
      handleEvent app \<lparr>event = MouseButtonPressed x y, mousePosition = c, keyC = False\<rparr> =
      app\<lparr>startPos := Vector2f_of c, isDrawing := True\<rparr>) \<and>
   (isDrawing app' \<longrightarrow>
      handleEvent app' \<lparr>event = MouseButtonPressed x y, mousePosition = c, keyC = k\<rparr> =
      handleEvent app' \<lparr>event = MouseButtonPressed x y, mousePosition = c', keyC = k\<rparr> \<and>
      handleEvent app' \<lparr>event = MouseButtonPressed x y, mousePosition = c, keyC = False\<rparr> =
      app'\<lparr>shapes := shapes app' @ placed (currentShapeType app') (startPos app')
                                        (Vector2f_of (x, y)) (currentColor app'),
           currentShapeType := ShapeType_None, isDrawing := False\<rparr>) \<and>
   (\<not> isDrawing app \<and> currentShapeType app \<noteq> ShapeType_None \<and> hitsNoButton c \<and> c \<noteq> (x, y) \<longrightarrow>
      (\<exists>sh. handleEvents app
               [\<lparr>event = MouseButtonPressed x y, mousePosition = c, keyC = False\<rparr>,
                \<lparr>event = MouseButtonPressed x2 y2, mousePosition = c2, keyC = False\<rparr>] =
             app\<lparr>startPos := Vector2f_of c, shapes := shapes app @ [sh],
                 currentShapeType := ShapeType_None, isDrawing := False\<rparr> \<and>
            [sh] = placed (currentShapeType app) (Vector2f_of c) (Vector2f_of (x2, y2))
                     (currentColor app) \<and>
            shapeStart sh = Vector2f_of c \<and> shapeStart sh \<noteq> Vector2f_of (x, y)))"
proof (intro conjI impI)
  assume "\<not> isDrawing idle"
  then have "mouseButtonPressed idle c (x, y) = mouseButtonPressed idle c (x', y')"
    by (simp add: mouseButtonPressed_def)
  then show "handleEvent idle \<lparr>event = MouseButtonPressed x y, mousePosition = c, keyC = k\<rparr> =
      handleEvent idle \<lparr>event = MouseButtonPressed x' y', mousePosition = c, keyC = k\<rparr>"
    by (simp add: handleEvent_def)
next
  assume "\<not> isDrawing idle \<and> isClicked lineButton b"
  then show "handleEvent idle \<lparr>event = MouseButtonPressed x y, mousePosition = b, keyC = False\<rparr> =
      idle\<lparr>currentShapeType := ShapeType_Line\<rparr>"
    by (simp add: handleEvent_def mouseButtonPressed_line)
next
  assume "\<not> isDrawing app \<and> currentShapeType app \<noteq> ShapeType_None \<and> hitsNoButton c"
  then show "handleEvent app \<lparr>event = MouseButtonPressed x y, mousePosition = c, keyC = False\<rparr> =
      app\<lparr>startPos := Vector2f_of c, isDrawing := True\<rparr>"
    by (simp add: handleEvent_def mouseButtonPressed_idle)
next
  assume "isDrawing app'"
  then show "handleEvent app' \<lparr>event = MouseButtonPressed x y, mousePosition = c, keyC = k\<rparr> =
      handleEvent app' \<lparr>event = MouseButtonPressed x y, mousePosition = c', keyC = k\<rparr>"
    by (simp add: handleEvent_def mouseButtonPressed_placing)
next
  assume "isDrawing app'"
  then show "handleEvent app' \<lparr>event = MouseButtonPressed x y, mousePosition = c, keyC = False\<rparr> =
      app'\<lparr>shapes := shapes app' @ placed (currentShapeType app') (startPos app')
                                        (Vector2f_of (x, y)) (currentColor app'),
           currentShapeType := ShapeType_None, isDrawing := False\<rparr>"
    by (simp add: handleEvent_def mouseButtonPressed_placing)
next
  assume h: "\<not> isDrawing app \<and> currentShapeType app \<noteq> ShapeType_None \<and> hitsNoButton c \<and> c \<noteq> (x, y)"
  let ?s1 = "app\<lparr>startPos := Vector2f_of c, isDrawing := True\<rparr>"
  have first: "handleEvent app \<lparr>event = MouseButtonPressed x y, mousePosition = c, keyC = False\<rparr> = ?s1"
    using h by (simp add: handleEvent_def mouseButtonPressed_idle)
  obtain sh where sh:
      "placed (currentShapeType app) (Vector2f_of c) (Vector2f_of (x2, y2)) (currentColor app) = [sh]"
      "shapeStart sh = Vector2f_of c"
    using placed_one [of "currentShapeType app"] h by blast
  have second: "handleEvent ?s1 \<lparr>event = MouseButtonPressed x2 y2, mousePosition = c2, keyC = False\<rparr> =
          app\<lparr>startPos := Vector2f_of c, shapes := shapes app @ [sh],
              currentShapeType := ShapeType_None, isDrawing := False\<rparr>"
    using sh(1) by (simp add: handleEvent_def mouseButtonPressed_placing)
  have "shapeStart sh \<noteq> Vector2f_of (x, y)"
    using sh(2) h by (simp add: Vector2f_of_inj)
  with first second sh
  show "\<exists>sh. handleEvents app
               [\<lparr>event = MouseButtonPressed x y, mousePosition = c, keyC = False\<rparr>,
                \<lparr>event = MouseButtonPressed x2 y2, mousePosition = c2, keyC = False\<rparr>] =
             app\<lparr>startPos := Vector2f_of c, shapes := shapes app @ [sh],
                 currentShapeType := ShapeType_None, isDrawing := False\<rparr> \<and>
            [sh] = placed (currentShapeType app) (Vector2f_of c) (Vector2f_of (x2, y2))
                     (currentColor app) \<and>
            shapeStart sh = Vector2f_of c \<and> shapeStart sh \<noteq> Vector2f_of (x, y)"
    by auto
qed

text \<open>
  An instance. From the initial state, an event that says \<open>(300, 300)\<close> while the cursor
  is on the Line button at \<open>(20, 20)\<close> selects Line. With Line selected, a first event
  that says \<open>(300, 300)\<close> while the cursor is at \<open>(200, 200)\<close>, and a second event that
  says \<open>(500, 500)\<close> while the cursor is on the Clear button at \<open>(350, 20)\<close>, commit the
  line from \<open>(200, 200)\<close> to \<open>(500, 500)\<close>.
\<close>

theorem cursor_position_is_start_point_witness:
  "\<not> isDrawing initialApp \<and> isClicked lineButton (20, 20) \<and>
   \<not> isDrawing (initialApp\<lparr>currentShapeType := ShapeType_Line\<rparr>) \<and>
   currentShapeType (initialApp\<lparr>currentShapeType := ShapeType_Line\<rparr>) \<noteq> ShapeType_None \<and>
   hitsNoButton (200, 200) \<and> (200, 200) \<noteq> ((300, 300) :: Vector2i) \<and>
   isDrawing (initialApp\<lparr>currentShapeType := ShapeType_Line, startPos := (200, 200), isDrawing := True\<rparr>) \<and>
   handleEvent initialApp \<lparr>event = MouseButtonPressed 300 300, mousePosition = (20, 20), keyC = False\<rparr>
     = initialApp\<lparr>currentShapeType := ShapeType_Line\<rparr> \<and>
   handleEvent (initialApp\<lparr>currentShapeType := ShapeType_Line, startPos := (200, 200), isDrawing := True\<rparr>)
       \<lparr>event = MouseButtonPressed 500 500, mousePosition = (350, 20), keyC = False\<rparr>
     = initialApp\<lparr>startPos := (200, 200), shapes := [Line (200, 200) (500, 500) White]\<rparr> \<and>
   handleEvents (initialApp\<lparr>currentShapeType := ShapeType_Line\<rparr>)
       [\<lparr>event = MouseButtonPressed 300 300, mousePosition = (200, 200), keyC = False\<rparr>,
        \<lparr>event = MouseButtonPressed 500 500, mousePosition = (350, 20), keyC = False\<rparr>]
     = initialApp\<lparr>startPos := (200, 200), shapes := [Line (200, 200) (500, 500) White]\<rparr>"
proof -
  let ?a = "initialApp\<lparr>currentShapeType := ShapeType_Line\<rparr>"
  let ?b = "initialApp\<lparr>currentShapeType := ShapeType_Line, startPos := (200, 200), isDrawing := True\<rparr>"
  let ?p1 = "\<lparr>event = MouseButtonPressed 300 300, mousePosition = (200, 200), keyC = False\<rparr>"
  let ?p2 = "\<lparr>event = MouseButtonPressed 500 500, mousePosition = (350, 20), keyC = False\<rparr>"
  have h0: "\<not> isDrawing initialApp" by (simp add: initialApp_def)
  have hb: "isClicked lineButton (20, 20)" by (simp add: isClicked_simps)
  have h1: "\<not> isDrawing ?a" by (simp add: initialApp_def)
  have h2: "currentShapeType ?a \<noteq> ShapeType_None" by simp
  have h3: "hitsNoButton (200, 200)" by (simp add: hitsNoButton_def isClicked_simps)
  have h4: "(200, 200) \<noteq> ((300, 300) :: Vector2i)" by simp
  have h5: "isDrawing ?b" by simp
  note inst = cursor_position_is_start_point
    [where idle = initialApp and b = "(20, 20)" and app = ?a and c = "(200, 200)"
       and x = 300 and y = 300 and app' = ?b and ?x2.0 = 500 and ?y2.0 = 500 and ?c2.0 = "(350, 20)"]
  note inst' = cursor_position_is_start_point
    [where app' = ?b and c = "(350, 20)" and x = 500 and y = 500]
  have r1: "handleEvent initialApp \<lparr>event = MouseButtonPressed 300 300, mousePosition = (20, 20), keyC = False\<rparr>
     = initialApp\<lparr>currentShapeType := ShapeType_Line\<rparr>"
    using inst h0 hb by blast
  have "handleEvent ?b ?p2 =
      ?b\<lparr>shapes := shapes ?b @ placed (currentShapeType ?b) (startPos ?b)
                                        (Vector2f_of (500, 500)) (currentColor ?b),
           currentShapeType := ShapeType_None, isDrawing := False\<rparr>"
    using inst' h5 by blast
  then have r2: "handleEvent ?b ?p2
     = initialApp\<lparr>startPos := (200, 200), shapes := [Line (200, 200) (500, 500) White]\<rparr>"
    by (simp add: initialApp_def Vector2f_of_pair)
  obtain sh where sh: "handleEvents ?a [?p1, ?p2] =
             ?a\<lparr>startPos := Vector2f_of (200, 200), shapes := shapes ?a @ [sh],
                 currentShapeType := ShapeType_None, isDrawing := False\<rparr>"
      "[sh] = placed (currentShapeType ?a) (Vector2f_of (200, 200)) (Vector2f_of (500, 500))
                     (currentColor ?a)"
    using inst h1 h2 h3 h4 by blast
  from sh(2) have "sh = Line (200, 200) (500, 500) White"
    by (simp add: initialApp_def Vector2f_of_pair)
  with sh(1) have r3: "handleEvents ?a [?p1, ?p2]
     = initialApp\<lparr>startPos := (200, 200), shapes := [Line (200, 200) (500, 500) White]\<rparr>"
    by (simp add: initialApp_def Vector2f_of_pair)
  show ?thesis using h0 hb h1 h2 h3 h4 h5 r1 r2 r3 by blast
qed

section \<open>Undo and clear\<close>

text \<open>
  Claim C3. A press of the Undo button, while no click is pending: on a canvas that ends
  with a shape \<open>x\<close> it removes exactly \<open>x\<close> and pushes \<open>x\<close> on the undo stack; on an
  empty canvas it changes nothing, neither canvas nor undo stack; on a canvas of two
  shapes \<open>a\<close>, \<open>b\<close>, two presses leave the canvas empty and add \<open>b\<close>, then \<open>a\<close>, to
  the undo stack: the order of removal.
\<close>

theorem undo_button_moves_last_shape:
  assumes "\<not> isDrawing app" and "isClicked undoButton mp" and "isClicked undoButton mp'"
  shows "mouseButtonPressed (app\<lparr>shapes := xs @ [x]\<rparr>) mp ev =
           app\<lparr>shapes := xs, undoStack := undoStack app @ [x]\<rparr> \<and>
         mouseButtonPressed (app\<lparr>shapes := []\<rparr>) mp ev = app\<lparr>shapes := []\<rparr> \<and>
         mouseButtonPressed (mouseButtonPressed (app\<lparr>shapes := [a, b]\<rparr>) mp ev) mp' ev' =
           app\<lparr>shapes := [], undoStack := undoStack app @ [b, a]\<rparr>"
  using assms by (simp add: mouseButtonPressed_undo)

theorem undo_button_moves_last_shape_witness:
  "\<not> isDrawing initialApp \<and> isClicked undoButton (570, 20) \<and> isClicked undoButton (600, 40) \<and>
   mouseButtonPressed (initialApp\<lparr>shapes := []\<rparr>) (570, 20) (570, 20) = initialApp \<and>
   mouseButtonPressed
     (mouseButtonPressed (initialApp\<lparr>shapes := [Line (0, 0) (1, 1) White, Circle (2, 2) 3 White]\<rparr>)
        (570, 20) (570, 20)) (600, 40) (600, 40)
     = initialApp\<lparr>undoStack := [Circle (2, 2) 3 White, Line (0, 0) (1, 1) White]\<rparr>"
proof -
  have h1: "\<not> isDrawing initialApp" by (simp add: initialApp_def)
  have h2: "isClicked undoButton (570, 20)" by (simp add: isClicked_simps)
  have h3: "isClicked undoButton (600, 40)" by (simp add: isClicked_simps)
  from undo_button_moves_last_shape [OF h1 h2 h3, of "[]" "Line (0, 0) (1, 1) White" "(570, 20)"
      "Line (0, 0) (1, 1) White" "Circle (2, 2) 3 White" "(600, 40)"] h1 h2 h3
  show ?thesis by (simp add: initialApp_def)
qed

text \<open>
  Claim C4. The clear operation of the Clear button, which runs on a press of that button
  while no click is pending, empties the canvas and the undo stack whatever they hold
  and changes nothing else; an undo followed at once by a clear leaves both empty.
\<close>

theorem clear_button_empties_canvas_and_undo:
  assumes "\<not> isDrawing app" and "isClicked clearButton mp" and "isClicked undoButton mp'"
  shows "mouseButtonPressed app mp ev = app\<lparr>shapes := [], undoStack := []\<rparr> \<and>
         mouseButtonPressed (mouseButtonPressed app mp' ev') mp ev = app\<lparr>shapes := [], undoStack := []\<rparr>"
  using assms by (simp add: mouseButtonPressed_undo mouseButtonPressed_clear)

theorem clear_button_empties_canvas_and_undo_witness:
  "\<not> isDrawing (initialApp\<lparr>shapes := [Line (0, 0) (1, 1) White, Circle (2, 2) 3 White],
        undoStack := [Line (5, 5) (6, 6) White]\<rparr>) \<and>
   isClicked clearButton (350, 20) \<and> isClicked undoButton (570, 20) \<and>
   mouseButtonPressed
     (mouseButtonPressed
        (initialApp\<lparr>shapes := [Line (0, 0) (1, 1) White, Circle (2, 2) 3 White],
           undoStack := [Line (5, 5) (6, 6) White]\<rparr>) (570, 20) (570, 20)) (350, 20) (350, 20)
     = initialApp"
proof -
  let ?a = "initialApp\<lparr>shapes := [Line (0, 0) (1, 1) White, Circle (2, 2) 3 White],
        undoStack := [Line (5, 5) (6, 6) White]\<rparr>"
  have h1: "\<not> isDrawing ?a" by (simp add: initialApp_def)
  have h2: "isClicked clearButton (350, 20)" by (simp add: isClicked_simps)
  have h3: "isClicked undoButton (570, 20)" by (simp add: isClicked_simps)
  from clear_button_empties_canvas_and_undo [OF h1 h2 h3, of "(350, 20)" "(570, 20)"] h1 h2 h3
  show ?thesis by (simp add: initialApp_def)
qed

section \<open>The clear key\<close>

text \<open>
  Claim C5 says that the key trigger, fired while a click is pending, discards the
  pending click. It does not: after Circle, a click at \<open>(200, 200)\<close> and an event
  handled with the C key down, the click is still pending and its start is still
  \<open>(200, 200)\<close>.
\<close>

theorem clear_key_discards_pending_click_counterexample:
  "isDrawing (handleEvents initialApp
      [click (240, 20), click (200, 200), \<lparr>event = OtherEvent, mousePosition = (200, 200), keyC = True\<rparr>]) \<and>
   startPos (handleEvents initialApp
      [click (240, 20), click (200, 200), \<lparr>event = OtherEvent, mousePosition = (200, 200), keyC = True\<rparr>])
     = (200, 200)"
  by (simp add: handleEvent_def click_def Let_def keyPressedC_def mouseButtonPressed_def
      isClicked_simps initialApp_def Vector2f_of_pair)

text \<open>
  Claim C5, amended. The key trigger empties the canvas and the undo stack whatever the
  interaction state is, and modifies no other member: an iteration with the C key down
  ends in the state that the same iteration with the key up ends in, with canvas and
  undo stack emptied. Fired while a click is pending, it leaves the pending click, its
  start point and the tool selection as they are, and the next click completes the
  placement on the emptied canvas.
\<close>

theorem clear_key_keeps_pending_click:
  assumes "keyC p"
  shows "handleEvent app p = (handleEvent app (p\<lparr>keyC := False\<rparr>))\<lparr>shapes := [], undoStack := []\<rparr> \<and>
         handleEvent (app\<lparr>isDrawing := True\<rparr>) (p\<lparr>event := OtherEvent\<rparr>)
           = app\<lparr>isDrawing := True, shapes := [], undoStack := []\<rparr> \<and>
         mouseButtonPressed (handleEvent (app\<lparr>isDrawing := True\<rparr>) (p\<lparr>event := OtherEvent\<rparr>)) c q
           = app\<lparr>shapes := placed (currentShapeType app) (startPos app) (Vector2f_of q) (currentColor app),
                 undoStack := [], currentShapeType := ShapeType_None, isDrawing := False\<rparr>"
proof -
  have 1: "handleEvent app p = (handleEvent app (p\<lparr>keyC := False\<rparr>))\<lparr>shapes := [], undoStack := []\<rparr>"
    using assms by (simp add: handleEvent_def keyPressedC_def Let_def split: Event.splits)
  have 2: "handleEvent (app\<lparr>isDrawing := True\<rparr>) (p\<lparr>event := OtherEvent\<rparr>)
           = app\<lparr>isDrawing := True, shapes := [], undoStack := []\<rparr>"
    using assms by (simp add: handleEvent_def keyPressedC_def)
  have 3: "mouseButtonPressed (app\<lparr>isDrawing := True, shapes := [], undoStack := []\<rparr>) c q
           = app\<lparr>shapes := placed (currentShapeType app) (startPos app) (Vector2f_of q) (currentColor app),
                 undoStack := [], currentShapeType := ShapeType_None, isDrawing := False\<rparr>"
    by (simp add: mouseButtonPressed_placing)
  show ?thesis using 1 2 3 by simp
qed

theorem clear_key_keeps_pending_click_witness:
  "keyC \<lparr>event = OtherEvent, mousePosition = (200, 200), keyC = True\<rparr> \<and>
   handleEvent (initialApp\<lparr>isDrawing := True, currentShapeType := ShapeType_Line, startPos := (200, 200),
        shapes := [Line (0, 0) (1, 1) White], undoStack := [Line (5, 5) (6, 6) White]\<rparr>)
      \<lparr>event = OtherEvent, mousePosition = (200, 200), keyC = True\<rparr>
     = initialApp\<lparr>isDrawing := True, currentShapeType := ShapeType_Line, startPos := (200, 200)\<rparr> \<and>
   mouseButtonPressed
     (handleEvent (initialApp\<lparr>isDrawing := True, currentShapeType := ShapeType_Line, startPos := (200, 200),
        shapes := [Line (0, 0) (1, 1) White], undoStack := [Line (5, 5) (6, 6) White]\<rparr>)
      \<lparr>event = OtherEvent, mousePosition = (200, 200), keyC = True\<rparr>) (300, 300) (300, 300)
     = initialApp\<lparr>startPos := (200, 200), shapes := [Line (200, 200) (300, 300) White]\<rparr>"
proof -
  let ?p = "\<lparr>event = OtherEvent, mousePosition = (200, 200), keyC = True\<rparr>"
  let ?a = "initialApp\<lparr>currentShapeType := ShapeType_Line, startPos := (200, 200),
        shapes := [Line (0, 0) (1, 1) White], undoStack := [Line (5, 5) (6, 6) White]\<rparr>"
  have h: "keyC ?p" by simp
  note inst = clear_key_keeps_pending_click [OF h, of ?a "(300, 300)" "(300, 300)"]
  have "handleEvent (?a\<lparr>isDrawing := True\<rparr>) (?p\<lparr>event := OtherEvent\<rparr>)
          = ?a\<lparr>isDrawing := True, shapes := [], undoStack := []\<rparr>"
    using inst by blast
  moreover have "mouseButtonPressed (handleEvent (?a\<lparr>isDrawing := True\<rparr>) (?p\<lparr>event := OtherEvent\<rparr>))
            (300, 300) (300, 300)
          = ?a\<lparr>shapes := placed (currentShapeType ?a) (startPos ?a) (Vector2f_of (300, 300)) (currentColor ?a),
                 undoStack := [], currentShapeType := ShapeType_None, isDrawing := False\<rparr>"
    using inst by blast
  ultimately show ?thesis using h by (simp add: initialApp_def Vector2f_of_pair)
qed

section \<open>The tool selection\<close>

subsection \<open>How one iteration changes it\<close>

lemma mouseButtonPressed_tool_kept:
  assumes "\<not> isDrawing (mouseButtonPressed app mp ev)"
    and "currentShapeType (mouseButtonPressed app mp ev) \<noteq> ShapeType_None"
  shows "\<not> isDrawing app \<and>
         (isClicked lineButton mp \<or> isClicked rectButton mp \<or> isClicked circleButton mp \<or>
          currentShapeType (mouseButtonPressed app mp ev) = currentShapeType app)"
proof (cases "isDrawing app")
  case True
  then show ?thesis using assms(2) by (simp add: mouseButtonPressed_placing)
next
  case False
  then show ?thesis by (simp add: mouseButtonPressed_def saveDrawing_def)
qed

lemma handleEvent_tool_kept:
  assumes "\<not> isDrawing (handleEvent app p)"
    and "currentShapeType (handleEvent app p) \<noteq> ShapeType_None"
  shows "toolButtonPress app p \<or>
         (\<not> isDrawing app \<and> currentShapeType app = currentShapeType (handleEvent app p))"
proof (cases "event p")
  case (MouseButtonPressed x y)
  have eq: "isDrawing (handleEvent app p) = isDrawing (mouseButtonPressed app (mousePosition p) (x, y))"
      "currentShapeType (handleEvent app p) =
         currentShapeType (mouseButtonPressed app (mousePosition p) (x, y))"
    using MouseButtonPressed by (simp_all add: handleEvent_isDrawing handleEvent_currentShapeType)
  from assms mouseButtonPressed_tool_kept [of app "mousePosition p" "(x, y)"]
  show ?thesis unfolding eq by (auto simp add: toolButtonPress_def MouseButtonPressed)
next
  case Closed
  with assms show ?thesis by (simp add: handleEvent_isDrawing handleEvent_currentShapeType)
next
  case OtherEvent
  with assms show ?thesis by (simp add: handleEvent_isDrawing handleEvent_currentShapeType)
qed

lemma mouseButtonPressed_pending_has_tool:
  assumes "isDrawing app \<longrightarrow> currentShapeType app \<noteq> ShapeType_None"
    and "isDrawing (mouseButtonPressed app mp ev)"
  shows "currentShapeType (mouseButtonPressed app mp ev) \<noteq> ShapeType_None"
proof (cases "isDrawing app")
  case True
  then show ?thesis using assms(2) by (simp add: mouseButtonPressed_placing)
next
  case False
  then show ?thesis using assms(2)
    by (simp add: mouseButtonPressed_def saveDrawing_def split: if_splits)
qed

lemma handleEvent_pending_has_tool:
  assumes "isDrawing app \<longrightarrow> currentShapeType app \<noteq> ShapeType_None"
    and "isDrawing (handleEvent app p)"
  shows "currentShapeType (handleEvent app p) \<noteq> ShapeType_None"
proof (cases "event p")
  case (MouseButtonPressed x y)
  have eq: "isDrawing (handleEvent app p) = isDrawing (mouseButtonPressed app (mousePosition p) (x, y))"
      "currentShapeType (handleEvent app p) =
         currentShapeType (mouseButtonPressed app (mousePosition p) (x, y))"
    using MouseButtonPressed by (simp_all add: handleEvent_isDrawing handleEvent_currentShapeType)
  from assms mouseButtonPressed_pending_has_tool [of app "mousePosition p" "(x, y)"]
  show ?thesis unfolding eq by blast
next
  case Closed
  with assms show ?thesis by (simp add: handleEvent_isDrawing handleEvent_currentShapeType)
next
  case OtherEvent
  with assms show ?thesis by (simp add: handleEvent_isDrawing handleEvent_currentShapeType)
qed

lemma handleEvents_pending_has_tool:
  assumes "isDrawing app \<longrightarrow> currentShapeType app \<noteq> ShapeType_None"
    and "isDrawing (handleEvents app ps)"
  shows "currentShapeType (handleEvents app ps) \<noteq> ShapeType_None"
  using assms
proof (induction ps arbitrary: app)
  case Nil
  then show ?case by simp
next
  case (Cons p ps)
  have "isDrawing (handleEvent app p) \<longrightarrow> currentShapeType (handleEvent app p) \<noteq> ShapeType_None"
    using handleEvent_pending_has_tool [OF Cons.prems(1)] by blast
  from Cons.IH [OF this] Cons.prems(2) show ?case by simp
qed

lemma tool_since_press:
  assumes "\<not> isDrawing (handleEvents initialApp ps)"
    and "currentShapeType (handleEvents initialApp ps) \<noteq> ShapeType_None"
  shows "\<exists>pre p post. ps = pre @ p # post \<and> toolButtonPress (handleEvents initialApp pre) p \<and>
           (\<forall>k\<le>length post.
              \<not> isDrawing (handleEvents initialApp (pre @ p # take k post)) \<and>
              currentShapeType (handleEvents initialApp (pre @ p # take k post))
                = currentShapeType (handleEvents initialApp ps))"
  using assms
proof (induction ps rule: rev_induct)
  case Nil
  then show ?case by (simp add: initialApp_def)
next
  case (snoc q qs)
  let ?s = "handleEvents initialApp qs"
  have run: "handleEvents initialApp (qs @ [q]) = handleEvent ?s q"
    by (rule handleEvents_snoc)
  from snoc.prems have now: "\<not> isDrawing (handleEvent ?s q)"
      "currentShapeType (handleEvent ?s q) \<noteq> ShapeType_None"
    by (simp_all add: run)
  from handleEvent_tool_kept [OF now]
  consider (press) "toolButtonPress ?s q"
    | (kept) "\<not> isDrawing ?s" "currentShapeType ?s = currentShapeType (handleEvent ?s q)"
    by blast
  then show ?case
  proof cases
    case press
    have "qs @ [q] = qs @ q # []" by simp
    moreover have "\<forall>k\<le>length ([] :: Poll list).
              \<not> isDrawing (handleEvents initialApp (qs @ q # take k [])) \<and>
              currentShapeType (handleEvents initialApp (qs @ q # take k []))
                = currentShapeType (handleEvents initialApp (qs @ [q]))"
      using now by (simp add: run)
    ultimately show ?thesis using press by blast
  next
    case kept
    with now have "currentShapeType ?s \<noteq> ShapeType_None" by simp
    from snoc.IH [OF kept(1) this]
    obtain pre p post where split: "qs = pre @ p # post"
      and press: "toolButtonPress (handleEvents initialApp pre) p"
      and since: "\<forall>k\<le>length post.
              \<not> isDrawing (handleEvents initialApp (pre @ p # take k post)) \<and>
              currentShapeType (handleEvents initialApp (pre @ p # take k post))
                = currentShapeType ?s"
      by blast
    have "qs @ [q] = pre @ p # (post @ [q])" using split by simp
    moreover have "\<forall>k\<le>length (post @ [q]).
              \<not> isDrawing (handleEvents initialApp (pre @ p # take k (post @ [q]))) \<and>
              currentShapeType (handleEvents initialApp (pre @ p # take k (post @ [q])))
                = currentShapeType (handleEvents initialApp (qs @ [q]))"
    proof (intro allI impI)
      fix k assume k: "k \<le> length (post @ [q])"
      show "\<not> isDrawing (handleEvents initialApp (pre @ p # take k (post @ [q]))) \<and>
              currentShapeType (handleEvents initialApp (pre @ p # take k (post @ [q])))
                = currentShapeType (handleEvents initialApp (qs @ [q]))"
      proof (cases "k \<le> length post")
        case True
        then have "take k (post @ [q]) = take k post" by simp
        with since True kept(2) show ?thesis by (simp add: run)
      next
        case False
        with k have "take k (post @ [q]) = post @ [q]" by simp
        then have "pre @ p # take k (post @ [q]) = qs @ [q]" using split by simp
        with now show ?thesis by (simp add: run)
      qed
    qed
    ultimately show ?thesis using press by blast
  qed
qed

subsection \<open>The invariant\<close>

text \<open>
  Claim C6 says that in a reachable state with no pending click the tool selection is
  None unless a tool button has just been pressed. It fails: after a press of the Line
  button and then a press of the Undo button, no click is pending, the Line tool is
  still selected, and the last poll pressed no tool button.
\<close>

theorem tool_none_unless_just_pressed_counterexample:
  "\<not> isDrawing (handleEvent (handleEvents initialApp [click (20, 20)]) (click (570, 20))) \<and>
   currentShapeType (handleEvent (handleEvents initialApp [click (20, 20)]) (click (570, 20)))
     = ShapeType_Line \<and>
   \<not> toolButtonPress (handleEvents initialApp [click (20, 20)]) (click (570, 20))"
  by (simp add: handleEvent_def click_def toolButtonPress_def mouseButtonPressed_def
      isClicked_simps initialApp_def)

text \<open>
  Claim C6, amended. In every state reached from the initial state: if a click is
  pending then a tool is selected; if no click is pending and a tool is selected, then
  a tool button was pressed at some earlier poll, and in every state from that press
  on no click has been pending and the tool selected has been the present one (the
  selection outlives presses of Clear, Undo and Save, key events and other events, until
  the placement begins). And the click that commits a shape, the click handled while a
  click is pending, leaves no tool selected and no click pending.
\<close>

theorem tool_selected_since_tool_button:
  "(isDrawing (handleEvents initialApp qs) \<longrightarrow>
      currentShapeType (handleEvents initialApp qs) \<noteq> ShapeType_None) \<and>
   (\<not> isDrawing (handleEvents initialApp ps) \<and>
    currentShapeType (handleEvents initialApp ps) \<noteq> ShapeType_None \<longrightarrow>
      (\<exists>pre p post. ps = pre @ p # post \<and> toolButtonPress (handleEvents initialApp pre) p \<and>
           (\<forall>k\<le>length post.
              \<not> isDrawing (handleEvents initialApp (pre @ p # take k post)) \<and>
              currentShapeType (handleEvents initialApp (pre @ p # take k post))
                = currentShapeType (handleEvents initialApp ps)))) \<and>
   (isDrawing app \<longrightarrow>
      currentShapeType (mouseButtonPressed app mp ev) = ShapeType_None \<and>
      \<not> isDrawing (mouseButtonPressed app mp ev))"
proof (intro conjI impI)
  assume "isDrawing (handleEvents initialApp qs)"
  moreover have "isDrawing initialApp \<longrightarrow> currentShapeType initialApp \<noteq> ShapeType_None"
    by (simp add: initialApp_def)
  ultimately show "currentShapeType (handleEvents initialApp qs) \<noteq> ShapeType_None"
    using handleEvents_pending_has_tool by blast
next
  assume "\<not> isDrawing (handleEvents initialApp ps) \<and>
    currentShapeType (handleEvents initialApp ps) \<noteq> ShapeType_None"
  then show "\<exists>pre p post. ps = pre @ p # post \<and> toolButtonPress (handleEvents initialApp pre) p \<and>
           (\<forall>k\<le>length post.
              \<not> isDrawing (handleEvents initialApp (pre @ p # take k post)) \<and>
              currentShapeType (handleEvents initialApp (pre @ p # take k post))
                = currentShapeType (handleEvents initialApp ps))"
    using tool_since_press by blast
next
  assume "isDrawing app"
  then show "currentShapeType (mouseButtonPressed app mp ev) = ShapeType_None"
    by (simp add: mouseButtonPressed_placing)
next
  assume "isDrawing app"
  then show "\<not> isDrawing (mouseButtonPressed app mp ev)"
    by (simp add: mouseButtonPressed_placing)
qed


theorem tool_selected_since_tool_button_witness:
  "isDrawing (handleEvents initialApp [click (20, 20), click (200, 200)]) \<and>
   currentShapeType (handleEvents initialApp [click (20, 20), click (200, 200)]) \<noteq> ShapeType_None \<and>
   \<not> isDrawing (handleEvents initialApp [click (20, 20), click (570, 20)]) \<and>
   currentShapeType (handleEvents initialApp [click (20, 20), click (570, 20)]) \<noteq> ShapeType_None \<and>
   (\<exists>pre p post. [click (20, 20), click (570, 20)] = pre @ p # post \<and>
       toolButtonPress (handleEvents initialApp pre) p \<and>
       (\<forall>k\<le>length post.
          \<not> isDrawing (handleEvents initialApp (pre @ p # take k post)) \<and>
          currentShapeType (handleEvents initialApp (pre @ p # take k post))
            = currentShapeType (handleEvents initialApp [click (20, 20), click (570, 20)]))) \<and>
   isDrawing (initialApp\<lparr>currentShapeType := ShapeType_Line, isDrawing := True\<rparr>) \<and>
   currentShapeType (mouseButtonPressed
       (initialApp\<lparr>currentShapeType := ShapeType_Line, isDrawing := True\<rparr>) (350, 20) (350, 20))
     = ShapeType_None"
proof -
  let ?qs = "[click (20, 20), click (200, 200)]"
  let ?ps = "[click (20, 20), click (570, 20)]"
  let ?a = "initialApp\<lparr>currentShapeType := ShapeType_Line, isDrawing := True\<rparr>"
  have q: "isDrawing (handleEvents initialApp ?qs)"
    by (simp add: handleEvent_def click_def mouseButtonPressed_def isClicked_simps initialApp_def)
  have p1: "\<not> isDrawing (handleEvents initialApp ?ps)"
    by (simp add: handleEvent_def click_def mouseButtonPressed_def isClicked_simps initialApp_def)
  have p2: "currentShapeType (handleEvents initialApp ?ps) \<noteq> ShapeType_None"
    by (simp add: handleEvent_def click_def mouseButtonPressed_def isClicked_simps initialApp_def)
  have a: "isDrawing ?a" by simp
  from tool_selected_since_tool_button [of ?qs ?ps ?a "(350, 20)" "(350, 20)"] q p1 p2 a
  show ?thesis by blast
qed

section \<open>The line scenario\<close>

text \<open>
  Claim C7 says that, from the initial state, selecting Line and clicking at
  \<open>(10, 10)\<close> and at \<open>(50, 50)\<close> leaves one line on the canvas and no tool selected.
  Both points lie on the Line button, whose region starts at \<open>(10, 10)\<close> and is 100 wide
  and 50 high; the button is tested first, so each click selects Line again: the canvas
  stays empty and Line stays selected.
\<close>

theorem line_scenario_on_button_counterexample:
  "shapes (handleEvents initialApp [click (20, 20), click (10, 10), click (50, 50)]) = [] \<and>
   currentShapeType (handleEvents initialApp [click (20, 20), click (10, 10), click (50, 50)])
     = ShapeType_Line"
  by (simp add: handleEvent_click mouseButtonPressed_def isClicked_simps initialApp_def)

text \<open>
  Claim C7, amended. From the initial state, selecting the Line tool (a click on the Line
  button) and then clicking at a point \<open>p\<close> that lies on no button and at a point
  \<open>q\<close>, for instance at \<open>(10, 100)\<close> and at \<open>(50, 150)\<close>, leaves the canvas
  containing exactly one shape, the line from \<open>p\<close> to \<open>q\<close>, with no tool selected and
  no click pending; every click handled while no click is pending is first tested
  against the buttons in their fixed order, the first match winning.
\<close>

theorem line_scenario_outside_buttons:
  assumes "isClicked lineButton b" and "hitsNoButton p"
  shows "handleEvents initialApp [click b, click p, click q] =
           initialApp\<lparr>startPos := Vector2f_of p,
                      shapes := [Line (Vector2f_of p) (Vector2f_of q) White]\<rparr>"
proof -
  have s1: "handleEvent initialApp (click b) = initialApp\<lparr>currentShapeType := ShapeType_Line\<rparr>"
    using assms(1) by (simp add: handleEvent_click mouseButtonPressed_line initialApp_def)
  have s2: "handleEvent (initialApp\<lparr>currentShapeType := ShapeType_Line\<rparr>) (click p) =
              initialApp\<lparr>currentShapeType := ShapeType_Line, startPos := Vector2f_of p, isDrawing := True\<rparr>"
    using assms(2) by (simp add: handleEvent_click mouseButtonPressed_idle initialApp_def)
  have s3: "handleEvent (initialApp\<lparr>currentShapeType := ShapeType_Line, startPos := Vector2f_of p,
                isDrawing := True\<rparr>) (click q) =
              initialApp\<lparr>startPos := Vector2f_of p,
                      shapes := [Line (Vector2f_of p) (Vector2f_of q) White]\<rparr>"
    by (simp add: handleEvent_click mouseButtonPressed_placing initialApp_def)
  show ?thesis by (simp add: s1 s2 s3)
qed

theorem line_scenario_outside_buttons_witness:
  "isClicked lineButton (20, 20) \<and> hitsNoButton (10, 100) \<and>
   handleEvents initialApp [click (20, 20), click (10, 100), click (50, 150)] =
     initialApp\<lparr>startPos := (10, 100), shapes := [Line (10, 100) (50, 150) White]\<rparr>"
proof -
  have h1: "isClicked lineButton (20, 20)" by (simp add: isClicked_simps)
  have h2: "hitsNoButton (10, 100)" by (simp add: hitsNoButton_def isClicked_simps)
  from line_scenario_outside_buttons [OF h1 h2, of "(50, 150)"] h1 h2
  show ?thesis by (simp add: Vector2f_of_pair)
qed

end
